theory Spec2Isabelle
  imports Complex_Main "HOL-Library.Word"
begin

section \<open>Numeric libraries used by the quoter\<close>

text \<open>
  The repository computes raw amounts with bn.js (\<open>BN\<close>: signed integers of any size)
  and prices with decimal.js-light (\<open>Decimal\<close>). A \<open>BN\<close> is modelled as an \<open>int\<close>.
  A \<open>Decimal\<close> is modelled as the rational number it denotes: decimal.js-light keeps 20
  significant digits in a quotient or a product, and this rounding is left out, so a
  statement on a \<open>Decimal\<close> field is a statement on its exact value.

  Every \<open>throw\<close> of the source, and every exception of the two libraries that the source
  can trigger, is a value of the type \<open>error\<close>.
\<close>

datatype error =
    InsufficientReserve       \<comment> \<open>\<open>Output amount (..) exceeds pool reserve (..)\<close>\<close>
  | BNAssertionFailed         \<comment> \<open>bn.js: \<open>div\<close> with a zero divisor\<close>
  | DecimalDivisionByZero     \<comment> \<open>decimal.js-light: \<open>div\<close> of a nonzero value by zero\<close>
  | AccountNotFound           \<comment> \<open>\<open>.. account not found: ..\<close>\<close>
  | NotOwnedByProgram         \<comment> \<open>\<open>Account .. is not owned by the .. program\<close>\<close>
  | UnknownCurveType          \<comment> \<open>\<open>Unknown curve type: ..\<close>\<close>

definition bindE :: "error + 'a \<Rightarrow> ('a \<Rightarrow> error + 'b) \<Rightarrow> error + 'b" where
  "bindE m f = (case m of Inl e \<Rightarrow> Inl e | Inr x \<Rightarrow> f x)"

text \<open>\<open>BN.div\<close> rounds towards zero and asserts that the divisor is not zero.\<close>

definition divTrunc :: "int \<Rightarrow> int \<Rightarrow> int" where
  "divTrunc a b =
     (if (a < 0) \<noteq> (b < 0) then - (\<bar>a\<bar> div \<bar>b\<bar>) else \<bar>a\<bar> div \<bar>b\<bar>)"

definition bn_div :: "int \<Rightarrow> int \<Rightarrow> error + int" where
  "bn_div a b = (if b = 0 then Inl BNAssertionFailed else Inr (divTrunc a b))"

text \<open>
  \<open>Decimal.div\<close>: a zero dividend gives zero (the library tests the dividend first), a
  zero divisor under a nonzero dividend throws.
\<close>

definition dec_div :: "rat \<Rightarrow> rat \<Rightarrow> error + rat" where
  "dec_div x y =
     (if x = 0 then Inr 0 else if y = 0 then Inl DecimalDivisionByZero else Inr (x / y))"

text \<open>
  \<open>new Decimal(10).pow(k)\<close> for an integer \<open>k\<close>. The fetchers compute the same factor
  as \<open>Math.pow(10, k)\<close>, a double that \<open>Decimal.mul\<close> reads back from its shortest
  decimal numeral; it is taken as the exact power too.
\<close>

definition pow10 :: "int \<Rightarrow> rat" where
  "pow10 k = (if 0 \<le> k then 10 ^ nat k else 1 / 10 ^ nat (- k))"

text \<open>\<open>toDecimalPlaces(0, Decimal.ROUND_DOWN)\<close>: the fraction is cut off, towards zero.\<close>

definition round_down :: "rat \<Rightarrow> int" where
  "round_down q = (if 0 \<le> q then \<lfloor>q\<rfloor> else \<lceil>q\<rceil>)"

section \<open>types.ts\<close>

type_synonym PublicKey = string

record TokenInfo =
  mint :: PublicKey
  decimals :: nat
  symbol :: "string option"

record FeeConfig =
  tradeFeeRate :: int
  protocolFeeRate :: int
  fundFeeRate :: int

record PoolData =
  id :: PublicKey
  mintA :: TokenInfo
  mintB :: TokenInfo
  baseReserve :: int
  quoteReserve :: int
  feeConfig :: FeeConfig
  fetchedAt :: int

datatype SwapDirection = solToToken | tokenToSol

record QuoteResult =
  amountIn :: int
  amountOut :: int
  minAmountOut :: int
  maxAmountIn :: int
  fee :: int
  priceImpact :: rat
  executionPrice :: rat
  currentPrice :: rat
  direction :: SwapDirection

text \<open>
  The two parameter records. Their fields carry the prefix \<open>in_\<close> and \<open>out_\<close>, since
  \<open>amountIn\<close>, \<open>amountOut\<close> and \<open>direction\<close> are fields of \<open>QuoteResult\<close> already.
  \<open>amountIn\<close> and \<open>amountOut\<close> (\<open>number | string\<close> in the source) are the values that
  \<open>new Decimal(amount)\<close> reads. The source uses \<open>slippage\<close> only in
  \<open>Math.floor(slippage * 1_000_000)\<close>, a computation on IEEE doubles: the field
  \<open>slippagePpm\<close> holds its result.
\<close>

record ExactInputQuoteParams =
  in_poolData :: PoolData
  in_amountIn :: rat
  in_slippagePpm :: int
  in_direction :: SwapDirection

record ExactOutputQuoteParams =
  out_poolData :: PoolData
  out_amountOut :: rat
  out_slippagePpm :: int
  out_direction :: SwapDirection

section \<open>quoteCalculator.ts\<close>

definition FEE_RATE_DENOMINATOR :: int where
  "FEE_RATE_DENOMINATOR = 1000000"

text \<open>
  \<open>toRawAmount\<close> passes the truncated product to \<open>new BN(raw.toString())\<close>: the integer
  itself, as long as \<open>toString\<close> prints it in plain notation (below \<open>10^21\<close>).
\<close>

definition toRawAmount :: "rat \<Rightarrow> nat \<Rightarrow> int" where
  "toRawAmount amount decs = round_down (amount * pow10 (int decs))"

definition toHumanAmount :: "int \<Rightarrow> nat \<Rightarrow> error + rat" where
  "toHumanAmount amount decs = dec_div (of_int amount) (pow10 (int decs))"

definition calculateFee :: "int \<Rightarrow> int \<Rightarrow> error + int" where
  "calculateFee amount feeRate = bn_div (amount * feeRate) FEE_RATE_DENOMINATOR"

definition ceilDiv :: "int \<Rightarrow> int \<Rightarrow> error + int" where
  "ceilDiv a b = bn_div (a + (b - 1)) b"

definition calculateSwapOutput :: "int \<Rightarrow> int \<Rightarrow> int \<Rightarrow> error + int" where
  "calculateSwapOutput inputAmount inputReserve outputReserve =
     (let numerator = inputAmount * outputReserve;
          denominator = inputReserve + inputAmount
      in bn_div numerator denominator)"

definition calculateSwapInput :: "int \<Rightarrow> int \<Rightarrow> int \<Rightarrow> error + int" where
  "calculateSwapInput outputAmount inputReserve outputReserve =
     (let numerator = inputReserve * outputAmount;
          denominator = outputReserve - outputAmount
      in ceilDiv numerator denominator)"

record Reserves =
  inputReserve :: int
  outputReserve :: int
  inputDecimals :: nat
  outputDecimals :: nat

definition getReserves :: "PoolData \<Rightarrow> SwapDirection \<Rightarrow> Reserves" where
  "getReserves poolData dir =
     (if dir = solToToken then
        \<lparr>inputReserve = quoteReserve poolData,
         outputReserve = baseReserve poolData,
         inputDecimals = decimals (mintB poolData),
         outputDecimals = decimals (mintA poolData)\<rparr>
      else
        \<lparr>inputReserve = baseReserve poolData,
         outputReserve = quoteReserve poolData,
         inputDecimals = decimals (mintA poolData),
         outputDecimals = decimals (mintB poolData)\<rparr>)"

definition calculateCurrentPrice :: "PoolData \<Rightarrow> error + rat" where
  "calculateCurrentPrice poolData =
     (let baseDecimal = of_int (baseReserve poolData);
          quoteDecimal = of_int (quoteReserve poolData);
          decimalAdjustment =
            pow10 (int (decimals (mintA poolData)) - int (decimals (mintB poolData)))
      in bindE (dec_div quoteDecimal baseDecimal) (\<lambda>r. Inr (r * decimalAdjustment)))"

definition calculatePriceImpact :: "rat \<Rightarrow> rat \<Rightarrow> SwapDirection \<Rightarrow> error + rat" where
  "calculatePriceImpact curPrice execPrice dir =
     (if dir = solToToken then
        bindE (dec_div (execPrice - curPrice) curPrice) (\<lambda>r. Inr \<bar>r\<bar>)
      else
        bindE (dec_div (curPrice - execPrice) curPrice) (\<lambda>r. Inr \<bar>r\<bar>))"

definition calculateExactInputQuote :: "ExactInputQuoteParams \<Rightarrow> error + QuoteResult" where
  "calculateExactInputQuote params =
     (let poolData = in_poolData params;
          dir = in_direction params;
          rs = getReserves poolData dir;
          rawAmountIn = toRawAmount (in_amountIn params) (inputDecimals rs)
      in bindE (calculateFee rawAmountIn (tradeFeeRate (feeConfig poolData))) (\<lambda>fee.
         let amountInAfterFee = rawAmountIn - fee
         in bindE (calculateSwapOutput amountInAfterFee (inputReserve rs) (outputReserve rs))
              (\<lambda>rawAmountOut.
         let slippageBN = in_slippagePpm params
         in bindE (bn_div (rawAmountOut * slippageBN) FEE_RATE_DENOMINATOR) (\<lambda>slippageAmount.
         let minAmountOut = rawAmountOut - slippageAmount
         in bindE (calculateCurrentPrice poolData) (\<lambda>curPrice.
            bindE (toHumanAmount rawAmountIn (inputDecimals rs)) (\<lambda>inputHuman.
            bindE (toHumanAmount rawAmountOut (outputDecimals rs)) (\<lambda>outputHuman.
            bindE (if dir = solToToken then dec_div inputHuman outputHuman
                   else dec_div outputHuman inputHuman) (\<lambda>execPrice.
            bindE (calculatePriceImpact curPrice execPrice dir) (\<lambda>impact.
            Inr \<lparr>amountIn = rawAmountIn,
                 amountOut = rawAmountOut,
                 minAmountOut = minAmountOut,
                 maxAmountIn = rawAmountIn,
                 fee = fee,
                 priceImpact = impact,
                 executionPrice = execPrice,
                 currentPrice = curPrice,
                 direction = dir\<rparr>)))))))))"

definition calculateExactOutputQuote :: "ExactOutputQuoteParams \<Rightarrow> error + QuoteResult" where
  "calculateExactOutputQuote params =
     (let poolData = out_poolData params;
          dir = out_direction params;
          rs = getReserves poolData dir;
          rawAmountOut = toRawAmount (out_amountOut params) (outputDecimals rs)
      in if outputReserve rs \<le> rawAmountOut then Inl InsufficientReserve
         else
           bindE (calculateSwapInput rawAmountOut (inputReserve rs) (outputReserve rs))
             (\<lambda>amountInBeforeFee.
           let feeRateDenomMinusFee = FEE_RATE_DENOMINATOR - tradeFeeRate (feeConfig poolData)
           in bindE (ceilDiv (amountInBeforeFee * FEE_RATE_DENOMINATOR) feeRateDenomMinusFee)
                (\<lambda>rawAmountIn.
           let fee = rawAmountIn - amountInBeforeFee;
               slippageBN = out_slippagePpm params
           in bindE (bn_div (rawAmountIn * slippageBN) FEE_RATE_DENOMINATOR) (\<lambda>slippageAmount.
           let maxAmountIn = rawAmountIn + slippageAmount
           in bindE (calculateCurrentPrice poolData) (\<lambda>curPrice.
              bindE (toHumanAmount rawAmountIn (inputDecimals rs)) (\<lambda>inputHuman.
              bindE (toHumanAmount rawAmountOut (outputDecimals rs)) (\<lambda>outputHuman.
              bindE (if dir = solToToken then dec_div inputHuman outputHuman
                     else dec_div outputHuman inputHuman) (\<lambda>execPrice.
              bindE (calculatePriceImpact curPrice execPrice dir) (\<lambda>impact.
              Inr \<lparr>amountIn = rawAmountIn,
                   amountOut = rawAmountOut,
                   minAmountOut = rawAmountOut,
                   maxAmountIn = maxAmountIn,
                   fee = fee,
                   priceImpact = impact,
                   executionPrice = execPrice,
                   currentPrice = curPrice,
                   direction = dir\<rparr>)))))))))"

section \<open>pumpfunBondingCurveFetcher.ts\<close>

text \<open>
  A \<open>Buffer\<close> is a list of bytes. \<open>connection.getAccountInfo\<close> is the one effect of the
  fetchers: its result (\<open>null\<close> or the account) is their argument here.
\<close>

type_synonym Buffer = "8 word list"

record AccountInfo =
  data :: Buffer
  owner :: PublicKey
  lamports :: nat
  executable :: bool
  rentEpoch :: nat

definition PUMPFUN_PROGRAM :: PublicKey where
  "PUMPFUN_PROGRAM = ''6EF8rrecthR5Dkzon8Nwu78hRvfCKubJ14M5uBEwF6P''"

text \<open>The fields of \<open>BONDING_CURVE_OFFSETS\<close>.\<close>

definition OFFSET_virtualTokenReserves :: nat where "OFFSET_virtualTokenReserves = 8"
definition OFFSET_virtualSolReserves :: nat where "OFFSET_virtualSolReserves = 16"
definition OFFSET_realTokenReserves :: nat where "OFFSET_realTokenReserves = 24"
definition OFFSET_realSolReserves :: nat where "OFFSET_realSolReserves = 32"
definition OFFSET_tokenTotalSupply :: nat where "OFFSET_tokenTotalSupply = 40"
definition OFFSET_complete :: nat where "OFFSET_complete = 48"


definition TOKEN_DECIMALS :: nat where "TOKEN_DECIMALS = 6"
definition SOL_DECIMALS :: nat where "SOL_DECIMALS = 9"

record PumpFunBondingCurveAccount =
  virtualTokenReserves :: int
  virtualSolReserves :: int
  realTokenReserves :: int
  realSolReserves :: int
  tokenTotalSupply :: int
  complete :: bool


text \<open>
  \<open>data.subarray(begin, end)\<close> clamps both ends to the buffer, and a read of \<open>data[i]\<close>
  past the end gives \<open>undefined\<close> (\<open>None\<close>). \<open>new BN(bytes, "le")\<close> is the little-endian
  value of the bytes it is given, zero for no bytes.
\<close>

definition subarray :: "Buffer \<Rightarrow> nat \<Rightarrow> nat \<Rightarrow> Buffer" where
  "subarray buf b e = take (e - b) (drop b buf)"

definition byteAt :: "Buffer \<Rightarrow> nat \<Rightarrow> 8 word option" where
  "byteAt buf i = (if i < length buf then Some (buf ! i) else None)"

fun bn_le :: "Buffer \<Rightarrow> int" where
  "bn_le [] = 0"
| "bn_le (b # bs) = uint b + 256 * bn_le bs"

definition readU64 :: "Buffer \<Rightarrow> nat \<Rightarrow> int" where
  "readU64 buf offset = bn_le (subarray buf offset (offset + 8))"

text \<open>\<open>data[offset] !== 0\<close>: \<open>undefined !== 0\<close> is true.\<close>

definition readBool :: "Buffer \<Rightarrow> nat \<Rightarrow> bool" where
  "readBool buf offset = (case byteAt buf offset of None \<Rightarrow> True | Some b \<Rightarrow> b \<noteq> 0)"

definition deserializePumpFunBondingCurve :: "Buffer \<Rightarrow> PumpFunBondingCurveAccount" where
  "deserializePumpFunBondingCurve buf =
     \<lparr>virtualTokenReserves = readU64 buf OFFSET_virtualTokenReserves,
      virtualSolReserves = readU64 buf OFFSET_virtualSolReserves,
      realTokenReserves = readU64 buf OFFSET_realTokenReserves,
      realSolReserves = readU64 buf OFFSET_realSolReserves,
      tokenTotalSupply = readU64 buf OFFSET_tokenTotalSupply,
      complete = readBool buf OFFSET_complete\<rparr>"

definition pumpfun_calculateCurrentPrice :: "PumpFunBondingCurveAccount \<Rightarrow> error + rat" where
  "pumpfun_calculateCurrentPrice curve =
     (let effectiveSol = of_int (virtualSolReserves curve + realSolReserves curve);
          effectiveToken = of_int (virtualTokenReserves curve - realTokenReserves curve)
      in if effectiveToken = 0 then Inr 0
         else
           let decimalAdj = pow10 (int TOKEN_DECIMALS - int SOL_DECIMALS)
           in bindE (dec_div effectiveSol effectiveToken) (\<lambda>r. Inr (r * decimalAdj)))"


definition fetchPumpFunBondingCurveAccount ::
  "AccountInfo option \<Rightarrow> error + PumpFunBondingCurveAccount" where
  "fetchPumpFunBondingCurveAccount accountInfo =
     (case accountInfo of
        None \<Rightarrow> Inl AccountNotFound
      | Some info \<Rightarrow>
          if owner info \<noteq> PUMPFUN_PROGRAM then Inl NotOwnedByProgram
          else Inr (deserializePumpFunBondingCurve (data info)))"


section \<open>The launchpad fetcher\<close>

datatype CurveType = ConstantProduct | FixedPrice | LinearPrice


text \<open>
  \<open>LaunchpadPoolAccount\<close> as \<open>types.ts\<close> declares it; its \<open>mintA\<close> and \<open>mintB\<close> are
  \<open>lp_mintA\<close> and \<open>lp_mintB\<close> here (\<open>PoolData\<close> has the names). The fields of
  \<open>BondingCurveInfo\<close> carry the prefix \<open>bc_\<close>. The price and percentage functions
  below take the account as decoded, with every field present.
\<close>

record LaunchpadPoolAccount =
  status :: nat
  mintDecimalsA :: nat
  mintDecimalsB :: nat
  migrateType :: nat
  "supply" :: int
  totalSellA :: int
  virtualA :: int
  virtualB :: int
  realA :: int
  realB :: int
  totalFundRaisingB :: int
  migrateFee :: int
  totalLockedAmount :: int
  configId :: PublicKey
  platformId :: PublicKey
  lp_mintA :: PublicKey
  lp_mintB :: PublicKey
  creator :: PublicKey





definition launchpad_calculateCurrentPrice ::
  "LaunchpadPoolAccount \<Rightarrow> CurveType \<Rightarrow> error + rat" where
  "launchpad_calculateCurrentPrice pool curveType =
     (let decimalAdj = pow10 (int (mintDecimalsA pool) - int (mintDecimalsB pool))
      in case curveType of
           ConstantProduct \<Rightarrow>
             (let effectiveB = of_int (virtualB pool + realB pool);
                  effectiveA = of_int (virtualA pool - realA pool)
              in bindE (dec_div effectiveB effectiveA) (\<lambda>r. Inr (r * decimalAdj)))
         | _ \<Rightarrow>
             (let vB = of_int (virtualB pool + realB pool);
                  vA = of_int (virtualA pool - realA pool)
              in bindE (dec_div vB vA) (\<lambda>r. Inr (r * decimalAdj))))"




section \<open>Sample inputs\<close>

text \<open>
  A pool of 1,000,000 tokens (6 decimals) against 25 SOL (9 decimals) with a trade fee of
  2500 ppm, and three requests on it: sell 1000 tokens, buy 1000 tokens, buy the whole
  token reserve. The two results are the values the quote functions compute; their prices
  are decimal fractions of fewer than 20 digits.
\<close>

definition poolA :: PoolData where
  "poolA =
     \<lparr>id = ''pool'',
      mintA = \<lparr>mint = ''token'', decimals = 6, symbol = None\<rparr>,
      mintB = \<lparr>mint = ''wsol'', decimals = 9, symbol = Some ''SOL''\<rparr>,
      baseReserve = 1000000000000, quoteReserve = 25000000000,
      feeConfig = \<lparr>tradeFeeRate = 2500, protocolFeeRate = 120000, fundFeeRate = 40000\<rparr>,
      fetchedAt = 0\<rparr>"

definition sellThousandTokens :: ExactInputQuoteParams where
  "sellThousandTokens =
     \<lparr>in_poolData = poolA, in_amountIn = 1000, in_slippagePpm = 10000,
      in_direction = tokenToSol\<rparr>"

definition sellThousandTokensResult :: QuoteResult where
  "sellThousandTokensResult =
     \<lparr>amountIn = 1000000000, amountOut = 24912649, minAmountOut = 24663523,
      maxAmountIn = 1000000000, fee = 2500000,
      priceImpact = 87351 / 25000000,
      executionPrice = 24912649 / 1000000000000, currentPrice = 1 / 40000,
      direction = tokenToSol\<rparr>"

definition buyThousandTokens :: ExactOutputQuoteParams where
  "buyThousandTokens =
     \<lparr>out_poolData = poolA, out_amountOut = 1000, out_slippagePpm = 10000,
      out_direction = solToToken\<rparr>"

definition buyThousandTokensResult :: QuoteResult where
  "buyThousandTokensResult =
     \<lparr>amountIn = 25087746, amountOut = 1000000000, minAmountOut = 1000000000,
      maxAmountIn = 25338623, fee = 62720,
      priceImpact = 43873 / 12500000,
      executionPrice = 12543873 / 500000000000, currentPrice = 1 / 40000,
      direction = solToToken\<rparr>"


text \<open>
  The 57-byte buffer that the repository's test builds for a curve half way to graduation
  (virtual reserves 1,000,000,000,000 and 30,000,000,000, real reserves 500,000,000,000
  and 42,500,000,000, supply 1,000,000,000,000, not complete), and a buffer of 12 bytes.
\<close>

definition midStageData :: Buffer where
  "midStageData =
     [0, 0, 0, 0, 0, 0, 0, 0,
      0, 16, 165, 212, 232, 0, 0, 0,
      0, 172, 35, 252, 6, 0, 0, 0,
      0, 136, 82, 106, 116, 0, 0, 0,
      0, 137, 50, 229, 9, 0, 0, 0,
      0, 16, 165, 212, 232, 0, 0, 0,
      0,
      0, 0, 0, 0, 0, 0, 0, 0]"

definition midStageAccount :: AccountInfo where
  "midStageAccount =
     \<lparr>data = midStageData, owner = PUMPFUN_PROGRAM, lamports = 1000000,
      executable = False, rentEpoch = 0\<rparr>"

definition shortAccount :: AccountInfo where
  "shortAccount =
     \<lparr>data = [0, 0, 0, 0, 0, 0, 0, 0, 1, 2, 3, 4], owner = PUMPFUN_PROGRAM,
      lamports = 1000000, executable = False, rentEpoch = 0\<rparr>"




section \<open>Integer division of bn.js against floor and ceiling\<close>

lemma divTrunc_nonneg: "0 \<le> a \<Longrightarrow> 0 \<le> b \<Longrightarrow> divTrunc a b = a div b"
  by (simp add: divTrunc_def)

lemma bn_div_floor:
  "0 \<le> a \<Longrightarrow> 0 < b \<Longrightarrow> bn_div a b = Inr \<lfloor>(of_int a :: rat) / of_int b\<rfloor>"
  by (simp add: bn_div_def divTrunc_nonneg floor_divide_of_int_eq)




lemma ceiling_rat_numeral:
  "\<lceil>numeral a / numeral b :: rat\<rceil> = - (- numeral a div numeral b)"
  using ceiling_divide_eq_div [where ?'a = rat, of "numeral a" "numeral b"] by simp



section \<open>Decimal conversions\<close>






section \<open>What a returned quote holds\<close>

lemma exactInput_elim:
  assumes "calculateExactInputQuote params = Inr q"
  shows "\<exists>f out slip.
      calculateFee
        (toRawAmount (in_amountIn params)
           (inputDecimals (getReserves (in_poolData params) (in_direction params))))
        (tradeFeeRate (feeConfig (in_poolData params))) = Inr f
    \<and> calculateSwapOutput
        (toRawAmount (in_amountIn params)
           (inputDecimals (getReserves (in_poolData params) (in_direction params))) - f)
        (inputReserve (getReserves (in_poolData params) (in_direction params)))
        (outputReserve (getReserves (in_poolData params) (in_direction params))) = Inr out
    \<and> bn_div (out * in_slippagePpm params) FEE_RATE_DENOMINATOR = Inr slip
    \<and> amountIn q =
        toRawAmount (in_amountIn params)
          (inputDecimals (getReserves (in_poolData params) (in_direction params)))
    \<and> amountOut q = out \<and> fee q = f \<and> maxAmountIn q = amountIn q
    \<and> minAmountOut q = out - slip
    \<and> direction q = in_direction params"
  using assms
  unfolding calculateExactInputQuote_def bindE_def Let_def
  by (auto split: sum.splits)

lemma exactOutput_elim:
  assumes "calculateExactOutputQuote params = Inr q"
  shows "\<exists>before slip.
      toRawAmount (out_amountOut params)
        (outputDecimals (getReserves (out_poolData params) (out_direction params)))
        < outputReserve (getReserves (out_poolData params) (out_direction params))
    \<and> calculateSwapInput
        (toRawAmount (out_amountOut params)
           (outputDecimals (getReserves (out_poolData params) (out_direction params))))
        (inputReserve (getReserves (out_poolData params) (out_direction params)))
        (outputReserve (getReserves (out_poolData params) (out_direction params))) = Inr before
    \<and> ceilDiv (before * FEE_RATE_DENOMINATOR)
        (FEE_RATE_DENOMINATOR - tradeFeeRate (feeConfig (out_poolData params)))
        = Inr (amountIn q)
    \<and> bn_div (amountIn q * out_slippagePpm params) FEE_RATE_DENOMINATOR = Inr slip
    \<and> amountOut q =
        toRawAmount (out_amountOut params)
          (outputDecimals (getReserves (out_poolData params) (out_direction params)))
    \<and> fee q = amountIn q - before \<and> maxAmountIn q = amountIn q + slip
    \<and> minAmountOut q = amountOut q
    \<and> direction q = out_direction params"
  using assms
  unfolding calculateExactOutputQuote_def bindE_def Let_def
  by (auto split: sum.splits if_splits)


lemmas quote_defs =
  calculateExactInputQuote_def calculateExactOutputQuote_def getReserves_def toRawAmount_def
  pow10_def round_down_def calculateFee_def FEE_RATE_DENOMINATOR_def bn_div_def divTrunc_def
  bindE_def calculateSwapOutput_def calculateSwapInput_def ceilDiv_def calculateCurrentPrice_def
  dec_div_def toHumanAmount_def calculatePriceImpact_def Let_def

lemma sellThousandTokens_quote: "calculateExactInputQuote sellThousandTokens = Inr sellThousandTokensResult"
  by (simp add: sellThousandTokens_def sellThousandTokensResult_def poolA_def quote_defs)

lemma buyThousandTokens_quote:
  "calculateExactOutputQuote buyThousandTokens = Inr buyThousandTokensResult"
  by (simp add: buyThousandTokens_def buyThousandTokensResult_def poolA_def quote_defs)

section \<open>Exact-input quotes\<close>





text \<open>
  C10. Every quote that \<open>calculateExactInputQuote\<close> returns has \<open>maxAmountIn = amountIn\<close>,
  and every quote that \<open>calculateExactOutputQuote\<close> returns has \<open>minAmountOut = amountOut\<close>.
\<close>

theorem quote_fixed_side_bound:
  "(calculateExactInputQuote pin = Inr q1 \<longrightarrow> maxAmountIn q1 = amountIn q1)
 \<and> (calculateExactOutputQuote pout = Inr q2 \<longrightarrow> minAmountOut q2 = amountOut q2)"
  using exactInput_elim [of pin q1] exactOutput_elim [of pout q2] by blast

theorem quote_fixed_side_bound_witness:
  "calculateExactInputQuote sellThousandTokens = Inr sellThousandTokensResult
   \<and> calculateExactOutputQuote buyThousandTokens = Inr buyThousandTokensResult
   \<and> maxAmountIn sellThousandTokensResult = amountIn sellThousandTokensResult
   \<and> minAmountOut buyThousandTokensResult = amountOut buyThousandTokensResult"
  using quote_fixed_side_bound [of sellThousandTokens sellThousandTokensResult buyThousandTokens
      buyThousandTokensResult]
  by (simp add: sellThousandTokens_quote buyThousandTokens_quote)




section \<open>Exact-output quotes\<close>





text \<open>
  C6 as stated fails: the slippage amount of an exact-output quote is
  \<open>rawAmountIn.mul(slippageBN).div(FEE_RATE_DENOMINATOR)\<close>, rounded down. Buying 1000 tokens
  at a tolerance of 10000 ppm needs 25087746 lamports; \<open>maxAmountIn\<close> is 25338623, and
  \<open>rawAmountIn + ceil(rawAmountIn * slippageRate)\<close> is 25338624.
\<close>

theorem exact_output_maxAmountIn_ceiling_counterexample:
  "calculateExactOutputQuote
     \<lparr>out_poolData =
        \<lparr>id = ''pool'', mintA = \<lparr>mint = ''token'', decimals = 6, symbol = None\<rparr>,
         mintB = \<lparr>mint = ''wsol'', decimals = 9, symbol = Some ''SOL''\<rparr>,
         baseReserve = 1000000000000, quoteReserve = 25000000000,
         feeConfig = \<lparr>tradeFeeRate = 2500, protocolFeeRate = 120000, fundFeeRate = 40000\<rparr>,
         fetchedAt = 0\<rparr>,
      out_amountOut = 1000, out_slippagePpm = 10000, out_direction = solToToken\<rparr>
     = Inr \<lparr>amountIn = 25087746, amountOut = 1000000000, minAmountOut = 1000000000,
            maxAmountIn = 25338623, fee = 62720,
            priceImpact = 43873 / 12500000,
            executionPrice = 12543873 / 500000000000, currentPrice = 1 / 40000,
            direction = solToToken\<rparr>
   \<and> (25087746 :: int) + \<lceil>(25087746 :: rat) * (10000 / 1000000)\<rceil> = 25338624"
  using buyThousandTokens_quote
  by (simp add: buyThousandTokens_def buyThousandTokensResult_def poolA_def
        ceiling_rat_numeral)

text \<open>
  C6, amended. Every quote that \<open>calculateExactOutputQuote\<close> returns with a non-negative
  \<open>amountIn\<close>, for a non-negative slippage rate in parts per million, has
  \<open>maxAmountIn = rawAmountIn + floor(rawAmountIn * slippageRate / 1000000)\<close>.
\<close>

theorem exact_output_maxAmountIn_floor:
  assumes "calculateExactOutputQuote params = Inr q"
    and "0 \<le> amountIn q" and "0 \<le> out_slippagePpm params"
  shows "maxAmountIn q =
     amountIn q
       + \<lfloor>(of_int (amountIn q) :: rat) * of_int (out_slippagePpm params) / 1000000\<rfloor>"
proof -
  from exactOutput_elim [OF assms(1)] obtain slip where
    s: "bn_div (amountIn q * out_slippagePpm params) FEE_RATE_DENOMINATOR = Inr slip"
    and m: "maxAmountIn q = amountIn q + slip" by blast
  have "0 \<le> amountIn q * out_slippagePpm params" using assms(2,3) by simp
  from bn_div_floor [OF this, of 1000000] s have
    "slip = \<lfloor>(of_int (amountIn q) :: rat) * of_int (out_slippagePpm params) / 1000000\<rfloor>"
    by (simp add: FEE_RATE_DENOMINATOR_def)
  with m show ?thesis by simp
qed

theorem exact_output_maxAmountIn_floor_witness:
  "calculateExactOutputQuote buyThousandTokens = Inr buyThousandTokensResult
   \<and> 0 \<le> amountIn buyThousandTokensResult
   \<and> 0 \<le> out_slippagePpm buyThousandTokens
   \<and> maxAmountIn buyThousandTokensResult
       = 25087746 + \<lfloor>(25087746 :: rat) * 10000 / 1000000\<rfloor>
   \<and> maxAmountIn buyThousandTokensResult = 25338623"
  using exact_output_maxAmountIn_floor [OF buyThousandTokens_quote]
  by (simp add: buyThousandTokens_quote)
     (simp add: buyThousandTokens_def buyThousandTokensResult_def)

section \<open>Decoding a bonding-curve account\<close>



lemma bn_le_sum: "bn_le bs = (\<Sum>i<length bs. uint (bs ! i) * 256 ^ i)"
proof (induction bs)
  case Nil
  then show ?case by simp
next
  case (Cons b bs)
  show ?case
    by (simp add: Cons sum.lessThan_Suc_shift sum_distrib_left algebra_simps
          del: sum.lessThan_Suc)
qed


lemma readU64_full:
  assumes "off + 8 \<le> length buf"
  shows "readU64 buf off = (\<Sum>i<8. uint (buf ! (off + i)) * 256 ^ i)"
proof -
  have l: "length (subarray buf off (off + 8)) = 8" using assms by (simp add: subarray_def)
  have "subarray buf off (off + 8) ! i = buf ! (off + i)" if "i < 8" for i
    using that assms by (simp add: subarray_def)
  then show ?thesis unfolding readU64_def bn_le_sum l by simp
qed

lemmas pumpfun_defs =
  fetchPumpFunBondingCurveAccount_def deserializePumpFunBondingCurve_def readU64_def readBool_def
  subarray_def byteAt_def OFFSET_virtualTokenReserves_def OFFSET_virtualSolReserves_def
  OFFSET_realTokenReserves_def OFFSET_realSolReserves_def OFFSET_tokenTotalSupply_def
  OFFSET_complete_def


lemma midStage_account:
  "fetchPumpFunBondingCurveAccount (Some midStageAccount) =
   Inr \<lparr>virtualTokenReserves = 1000000000000,
        virtualSolReserves = 30000000000, realTokenReserves = 500000000000,
        realSolReserves = 42500000000, tokenTotalSupply = 1000000000000,
        complete = False\<rparr>"
  by (simp add: midStageAccount_def midStageData_def pumpfun_defs)

lemma short_account:
  "fetchPumpFunBondingCurveAccount (Some shortAccount) =
   Inr \<lparr>virtualTokenReserves = 67305985, virtualSolReserves = 0,
        realTokenReserves = 0, realSolReserves = 0, tokenTotalSupply = 0,
        complete = True\<rparr>"
  by (simp add: shortAccount_def pumpfun_defs)


text \<open>
  C5 as stated fails: the decoder has no length check. From a buffer of 12 bytes
  \<open>fetchPumpFunBondingCurveAccount\<close> returns a record: the first field is the value of the
  four bytes that exist, the other four are zero, and \<open>complete\<close> is true
  (\<open>undefined !== 0\<close>).
\<close>

theorem decode_short_buffer_counterexample:
  "length [0, 0, 0, 0, 0, 0, 0, 0, 1, 2, 3, 4 :: 8 word] < 49
   \<and> fetchPumpFunBondingCurveAccount
       (Some \<lparr>data = [0, 0, 0, 0, 0, 0, 0, 0, 1, 2, 3, 4], owner = PUMPFUN_PROGRAM,
              lamports = 1000000, executable = False, rentEpoch = 0\<rparr>)
     = Inr \<lparr>virtualTokenReserves = 67305985, virtualSolReserves = 0,
            realTokenReserves = 0, realSolReserves = 0, tokenTotalSupply = 0,
            complete = True\<rparr>"
  by (simp add: pumpfun_defs)

text \<open>
  C5, amended. Decoding a bonding-curve account never fails on the length of the buffer:
  for every account owned by the program, \<open>fetchPumpFunBondingCurveAccount\<close> returns a
  record. Each 64-bit field is the little-endian value of those bytes of
  \<open>[offset, offset + 8)\<close> that the buffer has (zero when it has none), and \<open>complete\<close> is
  true when the buffer is shorter than 49 bytes. For a buffer of at least 49 bytes each
  64-bit field is the little-endian value of its eight bytes and \<open>complete\<close> says whether
  byte 48 is nonzero.
\<close>

theorem decode_bonding_curve_never_fails:
  fixes info :: AccountInfo
  defines "buf \<equiv> data info"
  assumes own: "owner info = PUMPFUN_PROGRAM"
  shows "\<exists>acct. fetchPumpFunBondingCurveAccount (Some info) = Inr acct
     \<and> virtualTokenReserves acct = bn_le (take 8 (drop 8 buf))
     \<and> virtualSolReserves acct = bn_le (take 8 (drop 16 buf))
     \<and> realTokenReserves acct = bn_le (take 8 (drop 24 buf))
     \<and> realSolReserves acct = bn_le (take 8 (drop 32 buf))
     \<and> tokenTotalSupply acct = bn_le (take 8 (drop 40 buf))
     \<and> (length buf < 49 \<longrightarrow> complete acct)
     \<and> (49 \<le> length buf \<longrightarrow>
          (complete acct \<longleftrightarrow> buf ! 48 \<noteq> 0)
        \<and> virtualTokenReserves acct = (\<Sum>i<8. uint (buf ! (8 + i)) * 256 ^ i)
        \<and> virtualSolReserves acct = (\<Sum>i<8. uint (buf ! (16 + i)) * 256 ^ i)
        \<and> realTokenReserves acct = (\<Sum>i<8. uint (buf ! (24 + i)) * 256 ^ i)
        \<and> realSolReserves acct = (\<Sum>i<8. uint (buf ! (32 + i)) * 256 ^ i)
        \<and> tokenTotalSupply acct = (\<Sum>i<8. uint (buf ! (40 + i)) * 256 ^ i))"
proof -
  have full: "readU64 buf off = (\<Sum>i<8. uint (buf ! (off + i)) * 256 ^ i)"
    if "49 \<le> length buf" "off \<le> 40" for off
    using that by (intro readU64_full) simp
  have "fetchPumpFunBondingCurveAccount (Some info) = Inr (deserializePumpFunBondingCurve buf)"
    using own by (simp add: fetchPumpFunBondingCurveAccount_def buf_def)
  moreover have "virtualTokenReserves (deserializePumpFunBondingCurve buf) = bn_le (take 8 (drop 8 buf))"
    "virtualSolReserves (deserializePumpFunBondingCurve buf) = bn_le (take 8 (drop 16 buf))"
    "realTokenReserves (deserializePumpFunBondingCurve buf) = bn_le (take 8 (drop 24 buf))"
    "realSolReserves (deserializePumpFunBondingCurve buf) = bn_le (take 8 (drop 32 buf))"
    "tokenTotalSupply (deserializePumpFunBondingCurve buf) = bn_le (take 8 (drop 40 buf))"
    by (simp_all add: pumpfun_defs)
  moreover have "length buf < 49 \<longrightarrow> complete (deserializePumpFunBondingCurve buf)"
    by (simp add: pumpfun_defs)
  moreover have "49 \<le> length buf \<longrightarrow>
      (complete (deserializePumpFunBondingCurve buf) \<longleftrightarrow> buf ! 48 \<noteq> 0)"
    by (simp add: pumpfun_defs)
  moreover have "49 \<le> length buf \<longrightarrow>
      virtualTokenReserves (deserializePumpFunBondingCurve buf) = (\<Sum>i<8. uint (buf ! (8 + i)) * 256 ^ i)
    \<and> virtualSolReserves (deserializePumpFunBondingCurve buf) = (\<Sum>i<8. uint (buf ! (16 + i)) * 256 ^ i)
    \<and> realTokenReserves (deserializePumpFunBondingCurve buf) = (\<Sum>i<8. uint (buf ! (24 + i)) * 256 ^ i)
    \<and> realSolReserves (deserializePumpFunBondingCurve buf) = (\<Sum>i<8. uint (buf ! (32 + i)) * 256 ^ i)
    \<and> tokenTotalSupply (deserializePumpFunBondingCurve buf) = (\<Sum>i<8. uint (buf ! (40 + i)) * 256 ^ i)"
    using full
    by (simp add: deserializePumpFunBondingCurve_def OFFSET_virtualTokenReserves_def
          OFFSET_virtualSolReserves_def OFFSET_realTokenReserves_def OFFSET_realSolReserves_def
          OFFSET_tokenTotalSupply_def)
  ultimately show ?thesis by blast
qed

theorem decode_bonding_curve_never_fails_witness:
  "owner shortAccount = PUMPFUN_PROGRAM \<and> length (data shortAccount) < 49
   \<and> fetchPumpFunBondingCurveAccount (Some shortAccount) =
       Inr \<lparr>virtualTokenReserves = 67305985, virtualSolReserves = 0,
            realTokenReserves = 0, realSolReserves = 0, tokenTotalSupply = 0,
            complete = True\<rparr>
   \<and> owner midStageAccount = PUMPFUN_PROGRAM \<and> 49 \<le> length (data midStageAccount)
   \<and> fetchPumpFunBondingCurveAccount (Some midStageAccount) =
       Inr \<lparr>virtualTokenReserves = 1000000000000,
            virtualSolReserves = 30000000000, realTokenReserves = 500000000000,
            realSolReserves = 42500000000, tokenTotalSupply = 1000000000000,
            complete = False\<rparr>"
  using decode_bonding_curve_never_fails [of shortAccount]
    decode_bonding_curve_never_fails [of midStageAccount]
  by (simp add: short_account midStage_account)
     (simp add: shortAccount_def midStageAccount_def midStageData_def)

section \<open>Curve economics\<close>













text \<open>
  C8 at a zero denominator. The launchpad \<open>calculateCurrentPrice\<close> divides
  \<open>effectiveB\<close> by \<open>effectiveA\<close> without a test, and throws for a pool with
  \<open>virtualA = realA\<close>; the PumpFun \<open>calculateCurrentPrice\<close> tests
  \<open>effectiveToken.isZero()\<close> first and reports zero in the same state.
\<close>

theorem current_price_zero_denominator:
  "launchpad_calculateCurrentPrice
     \<lparr>status = 0, mintDecimalsA = 6, mintDecimalsB = 9, migrateType = 1,
      supply = 1000000000000, totalSellA = 800000000000,
      virtualA = 1000000000000, virtualB = 30000000000,
      realA = 1000000000000, realB = 42500000000,
      totalFundRaisingB = 85000000000, migrateFee = 0, totalLockedAmount = 0,
      configId = ''config'', platformId = ''platform'',
      lp_mintA = ''token'', lp_mintB = ''wsol'', creator = ''creator''\<rparr>
     ConstantProduct
     = Inl DecimalDivisionByZero
   \<and> pumpfun_calculateCurrentPrice
       \<lparr>virtualTokenReserves = 1000000000000, virtualSolReserves = 30000000000,
        realTokenReserves = 1000000000000, realSolReserves = 42500000000,
        tokenTotalSupply = 1000000000000, complete = False\<rparr>
     = Inr 0"
  by (simp add: launchpad_calculateCurrentPrice_def pumpfun_calculateCurrentPrice_def
        dec_div_def bindE_def Let_def)

end
